theory Spec2Isabelle
  imports Complex_Main "HOL-Library.Sublist"
begin

section \<open>VideoDetectX: the frame-processing pipeline of main.py\<close>

text \<open>
  The development embeds \<^verbatim>\<open>detect_camera_shake\<close>, \<^verbatim>\<open>detect_faces_objects\<close> and
  \<^verbatim>\<open>main\<close> of \<^verbatim>\<open>main.py\<close>. The OpenCV primitives are external: they are fields of an
  environment record, and the functions below are the Python code around them.
  Python floats are modelled as reals (rounding is not modelled); frame counters start at
  0 or 1 and only grow, so they are naturals. Console output (\<^verbatim>\<open>print\<close>) is not modelled.
\<close>

subsection \<open>Errors, frame sources, events and reports\<close>

datatype py_error = ZeroDivisionError | OSError | SystemExit int

text \<open>What \<^verbatim>\<open>cv2.VideoCapture\<close> finds at a path: whether the container opens, the
  frames it decodes in presentation order, and the frame rate it reports.\<close>

record 'f video =
  can_open :: bool
  content :: "'f list"
  frame_rate :: real

text \<open>The capture object \<^verbatim>\<open>cap\<close>. \<open>reads\<close> counts the frames handed out by
  \<^verbatim>\<open>cap.read()\<close>, \<open>released\<close> records a call of \<^verbatim>\<open>cap.release()\<close>.\<close>

record 'f capture =
  isOpened :: bool
  pending :: "'f list"
  CAP_PROP_FPS :: real
  released :: bool
  reads :: nat

record shake_event =
  frame :: nat
  timestamp :: real
  magnitude :: real

record detection_event =
  dframe :: nat
  dtimestamp :: real
  count :: nat
  locations :: "int list list"

record shake_report =
  source_video :: string
  shake_events :: "shake_event list"
  total_events :: nat

record detection_report =
  dsource_video :: string
  detection_type :: string
  detections :: "detection_event list"
  total_frames_with_detections :: nat

datatype report = ShakeReport shake_report | DetectionReport detection_report

text \<open>The part of the file system the program writes: the paths it opened for writing,
  in order, and the report stored at each path.\<close>

record fsys =
  attempts :: "string list"
  files :: "string \<rightharpoonup> report"

text \<open>The external collaborators. \<open>mean_flow\<close> is the composition of
  \<^verbatim>\<open>calcOpticalFlowFarneback\<close>, \<^verbatim>\<open>cartToPolar\<close> and \<^verbatim>\<open>np.mean\<close> on two grayscale frames;
  \<open>detectMultiScale\<close> is the cascade loaded from a path, applied to a grayscale frame.\<close>

record ('f, 'g) env =
  videos :: "string \<Rightarrow> 'f video"
  cvtColor :: "'f \<Rightarrow> 'g"
  mean_flow :: "'g \<Rightarrow> 'g \<Rightarrow> real"
  haarcascades :: string
  detectMultiScale :: "string \<Rightarrow> 'g \<Rightarrow> int list list"
  isfile :: "string \<Rightarrow> bool"
  open_w :: "string \<Rightarrow> bool"
  splitext_root :: "string \<Rightarrow> string"
  now_strftime :: string

text \<open>The outcome of one operation: the returned list or the exception raised, the
  capture object as the operation leaves it, and the file system.\<close>

record ('a, 'f) run =
  ret :: "py_error + 'a"
  cap_end :: "'f capture"
  fs_end :: fsys

subsection \<open>The capture object\<close>

definition VideoCapture :: "('f, 'g) env \<Rightarrow> string \<Rightarrow> 'f capture" where
  "VideoCapture e video_path =
     (let v = videos e video_path
      in \<lparr>isOpened = can_open v, pending = content v, CAP_PROP_FPS = frame_rate v,
          released = False, reads = 0\<rparr>)"

definition cap_read :: "'f capture \<Rightarrow> 'f option \<times> 'f capture" where
  "cap_read cap =
     (if isOpened cap then
        (case pending cap of
           [] \<Rightarrow> (None, cap)
         | f # fs \<Rightarrow> (Some f, cap\<lparr>pending := fs, reads := reads cap + 1\<rparr>))
      else (None, cap))"

definition cap_release :: "'f capture \<Rightarrow> 'f capture" where
  "cap_release cap = cap\<lparr>isOpened := False, released := True\<rparr>"

subsection \<open>Writing the report\<close>

text \<open>\<^verbatim>\<open>with open(output_path, 'w') as f: json.dump(..., f, indent=2)\<close>: the open is
  attempted, and raises when the path cannot be opened for writing.\<close>

definition write_json :: "('f, 'g) env \<Rightarrow> string \<Rightarrow> report \<Rightarrow> fsys \<Rightarrow> (py_error + unit) \<times> fsys" where
  "write_json e output_path doc fs =
     (if open_w e output_path
      then (Inr (), fs\<lparr>attempts := attempts fs @ [output_path],
                        files := (files fs)(output_path \<mapsto> doc)\<rparr>)
      else (Inl OSError, fs\<lparr>attempts := attempts fs @ [output_path]\<rparr>))"

subsection \<open>Shake detection\<close>

text \<open>The \<^verbatim>\<open>while True\<close> loop of \<^verbatim>\<open>detect_camera_shake\<close> (lines 42 to 70), with the
  loop variables \<^verbatim>\<open>prev_gray\<close>, \<^verbatim>\<open>frame_count\<close> and \<^verbatim>\<open>shake_timestamps\<close> as arguments.
  \<^verbatim>\<open>frame_count / fps\<close> divides an int by a Python float and raises on zero.\<close>

function shake_loop ::
  "('f, 'g) env \<Rightarrow> real \<Rightarrow> real \<Rightarrow> 'g \<Rightarrow> nat \<Rightarrow> shake_event list \<Rightarrow> 'f capture
     \<Rightarrow> (py_error + shake_event list) \<times> 'f capture" where
  "shake_loop e threshold fps prev_gray frame_count shake_timestamps cap =
     (case cap_read cap of
        (None, cap') \<Rightarrow> (Inr shake_timestamps, cap')
      | (Some frm, cap') \<Rightarrow>
          (let gray = cvtColor e frm;
               mean_magnitude = mean_flow e prev_gray gray
           in if mean_magnitude > threshold then
                (if fps = 0 then (Inl ZeroDivisionError, cap')
                 else shake_loop e threshold fps gray (frame_count + 1)
                        (shake_timestamps @
                           [\<lparr>frame = frame_count,
                             timestamp = real frame_count / fps,
                             magnitude = mean_magnitude\<rparr>]) cap')
              else shake_loop e threshold fps gray (frame_count + 1) shake_timestamps cap'))"
  by pat_completeness auto
termination
  by (relation "measure (\<lambda>(e, threshold, fps, prev_gray, frame_count, acc, cap). length (pending cap))")
     (auto simp: cap_read_def split: if_splits list.splits)

declare shake_loop.simps [simp del]

definition detect_camera_shake ::
  "('f, 'g) env \<Rightarrow> string \<Rightarrow> string \<Rightarrow> real \<Rightarrow> fsys \<Rightarrow> (shake_event list, 'f) run" where
  "detect_camera_shake e video_path output_path threshold fs =
     (let cap = VideoCapture e video_path in
      if \<not> isOpened cap then \<lparr>ret = Inr [], cap_end = cap, fs_end = fs\<rparr>
      else
        let fps = CAP_PROP_FPS cap in
        case cap_read cap of
          (None, cap1) \<Rightarrow> \<lparr>ret = Inr [], cap_end = cap1, fs_end = fs\<rparr>
        | (Some prev_frame, cap1) \<Rightarrow>
            (let prev_gray = cvtColor e prev_frame in
             case shake_loop e threshold fps prev_gray 1 [] cap1 of
               (Inl err, cap2) \<Rightarrow> \<lparr>ret = Inl err, cap_end = cap2, fs_end = fs\<rparr>
             | (Inr shake_timestamps, cap2) \<Rightarrow>
                 (let cap3 = cap_release cap2 in
                  case write_json e output_path
                         (ShakeReport \<lparr>source_video = video_path,
                                       shake_events = shake_timestamps,
                                       total_events = length shake_timestamps\<rparr>) fs of
                    (Inl err, fs') \<Rightarrow> \<lparr>ret = Inl err, cap_end = cap3, fs_end = fs'\<rparr>
                  | (Inr u, fs') \<Rightarrow> \<lparr>ret = Inr shake_timestamps, cap_end = cap3, fs_end = fs'\<rparr>)))"

subsection \<open>Face and object detection\<close>

text \<open>The \<^verbatim>\<open>while True\<close> loop of \<^verbatim>\<open>detect_faces_objects\<close> (lines 121 to 141).\<close>

function detect_loop ::
  "('f, 'g) env \<Rightarrow> string \<Rightarrow> real \<Rightarrow> nat \<Rightarrow> detection_event list \<Rightarrow> 'f capture
     \<Rightarrow> (py_error + detection_event list) \<times> 'f capture" where
  "detect_loop e cascade_path fps frame_count detection_results cap =
     (case cap_read cap of
        (None, cap') \<Rightarrow> (Inr detection_results, cap')
      | (Some frm, cap') \<Rightarrow>
          (let gray = cvtColor e frm;
               dets = detectMultiScale e cascade_path gray
           in if length dets > 0 then
                (if fps = 0 then (Inl ZeroDivisionError, cap')
                 else detect_loop e cascade_path fps (frame_count + 1)
                        (detection_results @
                           [\<lparr>dframe = frame_count,
                             dtimestamp = real frame_count / fps,
                             count = length dets,
                             locations = (if length dets > 0 then dets else [])\<rparr>]) cap')
              else detect_loop e cascade_path fps (frame_count + 1) detection_results cap'))"
  by pat_completeness auto
termination
  by (relation "measure (\<lambda>(e, cascade_path, fps, frame_count, acc, cap). length (pending cap))")
     (auto simp: cap_read_def split: if_splits list.splits)

declare detect_loop.simps [simp del]

text \<open>Lines 106 to 112: the profile is resolved to the path of a cascade file; an
  unknown profile has none.\<close>

definition cascade_path_for :: "('f, 'g) env \<Rightarrow> string \<Rightarrow> string option" where
  "cascade_path_for e cascade_type =
     (if cascade_type = ''face''
        then Some (haarcascades e @ ''haarcascade_frontalface_default.xml'')
      else if cascade_type = ''object''
        then Some (haarcascades e @ ''haarcascade_fullbody.xml'')
      else None)"

definition detect_faces_objects ::
  "('f, 'g) env \<Rightarrow> string \<Rightarrow> string \<Rightarrow> string \<Rightarrow> fsys \<Rightarrow> (detection_event list, 'f) run" where
  "detect_faces_objects e video_path output_path cascade_type fs =
     (let cap = VideoCapture e video_path in
      if \<not> isOpened cap then \<lparr>ret = Inr [], cap_end = cap, fs_end = fs\<rparr>
      else
        let fps = CAP_PROP_FPS cap in
        case cascade_path_for e cascade_type of
          None \<Rightarrow> \<lparr>ret = Inr [], cap_end = cap, fs_end = fs\<rparr>
        | Some cascade_path \<Rightarrow>
            (case detect_loop e cascade_path fps 0 [] cap of
               (Inl err, cap2) \<Rightarrow> \<lparr>ret = Inl err, cap_end = cap2, fs_end = fs\<rparr>
             | (Inr detection_results, cap2) \<Rightarrow>
                 (let cap3 = cap_release cap2 in
                  case write_json e output_path
                         (DetectionReport \<lparr>dsource_video = video_path,
                                           detection_type = cascade_type,
                                           detections = detection_results,
                                           total_frames_with_detections = length detection_results\<rparr>) fs of
                    (Inl err, fs') \<Rightarrow> \<lparr>ret = Inl err, cap_end = cap3, fs_end = fs'\<rparr>
                  | (Inr u, fs') \<Rightarrow> \<lparr>ret = Inr detection_results, cap_end = cap3, fs_end = fs'\<rparr>)))"

subsection \<open>The driver\<close>

text \<open>The parsed command line. \<^verbatim>\<open>argparse\<close> exits with status 2 on a mode outside
  its \<^verbatim>\<open>choices\<close>; \<^verbatim>\<open>not args.output\<close> holds for a missing and for an empty value
  (the field is \<open>output_path_arg\<close> here).\<close>

record args =
  video :: string
  mode :: string
  output_path_arg :: "string option"
  threshold :: real

text \<open>Lines 174 to 176: the report path, derived from the input name, the mode and
  the clock when none is given.\<close>

definition output_path_of :: "('f, 'g) env \<Rightarrow> args \<Rightarrow> string" where
  "output_path_of e a =
     (case output_path_arg a of
        None \<Rightarrow> splitext_root e (video a) @ ''_'' @ mode a @ ''_'' @ now_strftime e @ ''.json''
      | Some p \<Rightarrow>
          if p = [] then splitext_root e (video a) @ ''_'' @ mode a @ ''_'' @ now_strftime e @ ''.json''
          else p)"

definition main :: "('f, 'g) env \<Rightarrow> args \<Rightarrow> fsys \<Rightarrow> (py_error + unit) \<times> fsys" where
  "main e a fs =
     (if mode a \<notin> {''shake'', ''face'', ''object''} then (Inl (SystemExit 2), fs)
      else if \<not> isfile e (video a) then (Inl (SystemExit 1), fs)
      else
        let out = output_path_of e a
        in if mode a = ''shake'' then
             (let r = detect_camera_shake e (video a) out (threshold a) fs
              in (map_sum id (\<lambda>results. ()) (ret r), fs_end r))
           else if mode a = ''face'' then
             (let r = detect_faces_objects e (video a) out ''face'' fs
              in (map_sum id (\<lambda>results. ()) (ret r), fs_end r))
           else
             (let r = detect_faces_objects e (video a) out ''object'' fs
              in (map_sum id (\<lambda>results. ()) (ret r), fs_end r)))"

subsection \<open>Quantities the properties speak about\<close>

text \<open>The mean flow magnitude the loop computes when frame \<open>i\<close> is current (lines 48
  to 57): the flow from frame \<open>i - 1\<close> to frame \<open>i\<close>, both converted to grayscale.\<close>

definition pair_magnitude :: "('f, 'g) env \<Rightarrow> 'f list \<Rightarrow> nat \<Rightarrow> real" where
  "pair_magnitude e fs i = mean_flow e (cvtColor e (fs ! (i - 1))) (cvtColor e (fs ! i))"

text \<open>The boxes the cascade returns for frame \<open>i\<close> (lines 127 to 130).\<close>

definition boxes_at :: "('f, 'g) env \<Rightarrow> string \<Rightarrow> 'f list \<Rightarrow> nat \<Rightarrow> int list list" where
  "boxes_at e cascade_path fs i = detectMultiScale e cascade_path (cvtColor e (fs ! i))"

text \<open>The two iterations as functions of the list of frames still to be read.\<close>

fun shake_scan :: "('f, 'g) env \<Rightarrow> real \<Rightarrow> real \<Rightarrow> 'g \<Rightarrow> nat \<Rightarrow> 'f list \<Rightarrow> shake_event list" where
  "shake_scan e t fps prev n [] = []"
| "shake_scan e t fps prev n (f # fs) =
     (if mean_flow e prev (cvtColor e f) > t
      then \<lparr>frame = n, timestamp = real n / fps, magnitude = mean_flow e prev (cvtColor e f)\<rparr>
             # shake_scan e t fps (cvtColor e f) (n + 1) fs
      else shake_scan e t fps (cvtColor e f) (n + 1) fs)"

fun detect_scan :: "('f, 'g) env \<Rightarrow> string \<Rightarrow> real \<Rightarrow> nat \<Rightarrow> 'f list \<Rightarrow> detection_event list" where
  "detect_scan e cp fps n [] = []"
| "detect_scan e cp fps n (f # fs) =
     (if detectMultiScale e cp (cvtColor e f) \<noteq> []
      then \<lparr>dframe = n, dtimestamp = real n / fps,
             count = length (detectMultiScale e cp (cvtColor e f)),
             locations = detectMultiScale e cp (cvtColor e f)\<rparr>
             # detect_scan e cp fps (n + 1) fs
      else detect_scan e cp fps (n + 1) fs)"

text \<open>The events the operations select, written as selections from the frame indices: shake
  detection looks at the indices \<open>1\<close> to \<open>N - 1\<close>, detection at \<open>0\<close> to \<open>N - 1\<close>.\<close>

definition shake_selection :: "('f, 'g) env \<Rightarrow> real \<Rightarrow> real \<Rightarrow> 'f list \<Rightarrow> shake_event list" where
  "shake_selection e t fps fs =
     map (\<lambda>i. \<lparr>frame = i, timestamp = real i / fps, magnitude = pair_magnitude e fs i\<rparr>)
       (filter (\<lambda>i. t < pair_magnitude e fs i) [1 ..< length fs])"

definition detection_selection ::
  "('f, 'g) env \<Rightarrow> string \<Rightarrow> real \<Rightarrow> 'f list \<Rightarrow> detection_event list" where
  "detection_selection e cp fps fs =
     map (\<lambda>i. \<lparr>dframe = i, dtimestamp = real i / fps,
                count = length (boxes_at e cp fs i), locations = boxes_at e cp fs i\<rparr>)
       (filter (\<lambda>i. boxes_at e cp fs i \<noteq> []) [0 ..< length fs])"

subsection \<open>A small concrete installation\<close>

text \<open>Frames are numbers, grayscale conversion keeps them, the flow magnitude between
  two frames is their distance, and the cascade finds one box on the frame numbered 3.
  Two paths hold the same three-frame video, one video has no frame, one reports a frame
  rate of 0, and every other path does not open.\<close>

definition demo_env :: "(nat, nat) env" where
  "demo_env =
     \<lparr>videos = (\<lambda>p. if p = ''clip.mp4'' \<or> p = ''copy.mp4'' then \<lparr>can_open = True, content = [0, 0, 3], frame_rate = 10\<rparr>
                     else if p = ''none.mp4'' then \<lparr>can_open = True, content = [], frame_rate = 10\<rparr>
                     else if p = ''zero.mp4'' then \<lparr>can_open = True, content = [0, 3], frame_rate = 0\<rparr>
                     else \<lparr>can_open = False, content = [], frame_rate = 0\<rparr>),
      cvtColor = (\<lambda>f. f),
      mean_flow = (\<lambda>a b. \<bar>real b - real a\<bar>),
      haarcascades = ''/cv2/data/'',
      detectMultiScale = (\<lambda>p g. if g = 3 then [[10, 10, 20, 20]] else []),
      isfile = (\<lambda>p. True),
      open_w = (\<lambda>p. True),
      splitext_root = (\<lambda>p. takeWhile (\<lambda>c. c \<noteq> CHR ''.'') p),
      now_strftime = ''20240101_120000''\<rparr>"

definition demo_fs :: fsys where
  "demo_fs = \<lparr>attempts = [], files = Map.empty\<rparr>"

section \<open>The iterations and the runs, characterised\<close>

lemma cap_read_open:
  "isOpened cap \<Longrightarrow> pending cap = f # fs \<Longrightarrow>
   cap_read cap = (Some f, cap\<lparr>pending := fs, reads := Suc (reads cap)\<rparr>)"
  by (simp add: cap_read_def)

lemma cap_read_open_Nil: "pending cap = [] \<Longrightarrow> cap_read cap = (None, cap)"
  by (simp add: cap_read_def)

lemma cap_read_closed: "\<not> isOpened cap \<Longrightarrow> cap_read cap = (None, cap)"
  by (simp add: cap_read_def)

lemma shake_loop_ret:
  "isOpened cap \<Longrightarrow> pending cap = fs \<Longrightarrow>
   fst (shake_loop e t fps prev n acc cap) =
     (if fps = 0 \<and> shake_scan e t fps prev n fs \<noteq> [] then Inl ZeroDivisionError
      else Inr (acc @ shake_scan e t fps prev n fs))"
proof (induction fs arbitrary: prev n acc cap)
  case Nil
  then show ?case
    by (subst shake_loop.simps) (simp add: cap_read_open_Nil)
next
  case (Cons f fs)
  let ?cap' = "cap\<lparr>pending := fs, reads := Suc (reads cap)\<rparr>"
  have rd: "cap_read cap = (Some f, ?cap')"
    using Cons.prems by (simp add: cap_read_open)
  have o: "isOpened ?cap'" "pending ?cap' = fs" using Cons.prems by simp_all
  note ih = Cons.IH [OF o]
  show ?case
  proof (cases "fps = 0")
    case True
    have ih0: "\<And>prev n acc. fst (shake_loop e t 0 prev n acc ?cap') =
        (if shake_scan e t 0 prev n fs \<noteq> [] then Inl ZeroDivisionError else Inr (acc @ shake_scan e t 0 prev n fs))"
      using ih True by simp
    show ?thesis
      by (subst shake_loop.simps) (simp add: rd Let_def True ih0)
  next
    case False
    then show ?thesis
      by (subst shake_loop.simps) (simp add: rd Let_def ih)
  qed
qed

lemma shake_loop_cap:
  "isOpened cap \<Longrightarrow> pending cap = fs \<Longrightarrow>
   released (snd (shake_loop e t fps prev n acc cap)) = released cap \<and>
   isOpened (snd (shake_loop e t fps prev n acc cap)) \<and>
   reads (snd (shake_loop e t fps prev n acc cap)) \<le> reads cap + length fs"
proof (induction fs arbitrary: prev n acc cap)
  case Nil
  then show ?case
    by (subst (1 2 3) shake_loop.simps) (simp add: cap_read_open_Nil)
next
  case (Cons f fs)
  let ?cap' = "cap\<lparr>pending := fs, reads := Suc (reads cap)\<rparr>"
  have rd: "cap_read cap = (Some f, ?cap')"
    using Cons.prems by (simp add: cap_read_open)
  have o: "isOpened ?cap'" "pending ?cap' = fs" using Cons.prems by simp_all
  note ih = Cons.IH [OF o]
  show ?case
    using ih Cons.prems(1) by (subst (1 2 3) shake_loop.simps) (simp add: rd Let_def)
qed

lemma detect_loop_ret:
  "isOpened cap \<Longrightarrow> pending cap = fs \<Longrightarrow>
   fst (detect_loop e cp fps n acc cap) =
     (if fps = 0 \<and> detect_scan e cp fps n fs \<noteq> [] then Inl ZeroDivisionError
      else Inr (acc @ detect_scan e cp fps n fs))"
proof (induction fs arbitrary: n acc cap)
  case Nil
  then show ?case
    by (subst detect_loop.simps) (simp add: cap_read_open_Nil)
next
  case (Cons f fs)
  let ?cap' = "cap\<lparr>pending := fs, reads := Suc (reads cap)\<rparr>"
  have rd: "cap_read cap = (Some f, ?cap')"
    using Cons.prems by (simp add: cap_read_open)
  have o: "isOpened ?cap'" "pending ?cap' = fs" using Cons.prems by simp_all
  note ih = Cons.IH [OF o]
  show ?case
  proof (cases "fps = 0")
    case True
    have ih0: "\<And>n acc. fst (detect_loop e cp 0 n acc ?cap') =
        (if detect_scan e cp 0 n fs \<noteq> [] then Inl ZeroDivisionError else Inr (acc @ detect_scan e cp 0 n fs))"
      using ih True by simp
    show ?thesis
      by (subst detect_loop.simps) (simp add: rd Let_def True ih0)
  next
    case False
    then show ?thesis
      by (subst detect_loop.simps) (simp add: rd Let_def ih)
  qed
qed

lemma detect_loop_cap:
  "isOpened cap \<Longrightarrow> pending cap = fs \<Longrightarrow>
   released (snd (detect_loop e cp fps n acc cap)) = released cap \<and>
   isOpened (snd (detect_loop e cp fps n acc cap)) \<and>
   reads (snd (detect_loop e cp fps n acc cap)) \<le> reads cap + length fs"
proof (induction fs arbitrary: n acc cap)
  case Nil
  then show ?case
    by (subst (1 2 3) detect_loop.simps) (simp add: cap_read_open_Nil)
next
  case (Cons f fs)
  let ?cap' = "cap\<lparr>pending := fs, reads := Suc (reads cap)\<rparr>"
  have rd: "cap_read cap = (Some f, ?cap')"
    using Cons.prems by (simp add: cap_read_open)
  have o: "isOpened ?cap'" "pending ?cap' = fs" using Cons.prems by simp_all
  note ih = Cons.IH [OF o]
  show ?case
    using ih Cons.prems(1) by (subst (1 2 3) detect_loop.simps) (simp add: rd Let_def)
qed

text \<open>The list forms of the iterations, as selections from the frame indices.\<close>

lemma shake_scan_closed:
  "shake_scan e t fps (cvtColor e f) (Suc (length pre)) fs =
     map (\<lambda>i. \<lparr>frame = i, timestamp = real i / fps, magnitude = pair_magnitude e (pre @ f # fs) i\<rparr>)
       (filter (\<lambda>i. t < pair_magnitude e (pre @ f # fs) i)
          [Suc (length pre) ..< Suc (length pre) + length fs])"
proof (induction fs arbitrary: pre f)
  case Nil
  show ?case by simp
next
  case (Cons g gs)
  have pm: "pair_magnitude e (pre @ f # g # gs) (Suc (length pre)) = mean_flow e (cvtColor e f) (cvtColor e g)"
    by (simp add: pair_magnitude_def nth_append)
  have up: "[Suc (length pre) ..< Suc (length pre) + length (g # gs)] =
            Suc (length pre) # [Suc (length (pre @ [f])) ..< Suc (length (pre @ [f])) + length gs]"
    by (subst upt_conv_Cons) simp_all
  have ih: "shake_scan e t fps (cvtColor e g) (Suc (length (pre @ [f]))) gs =
     map (\<lambda>i. \<lparr>frame = i, timestamp = real i / fps, magnitude = pair_magnitude e (pre @ f # g # gs) i\<rparr>)
       (filter (\<lambda>i. t < pair_magnitude e (pre @ f # g # gs) i)
          [Suc (length (pre @ [f])) ..< Suc (length (pre @ [f])) + length gs])"
    using Cons.IH [of g "pre @ [f]"] by simp
  show ?case
    unfolding up using ih by (simp add: pm)
qed

lemma detect_scan_closed:
  "detect_scan e cp fps (length pre) fs =
     map (\<lambda>i. \<lparr>dframe = i, dtimestamp = real i / fps,
                count = length (boxes_at e cp (pre @ fs) i),
                locations = boxes_at e cp (pre @ fs) i\<rparr>)
       (filter (\<lambda>i. boxes_at e cp (pre @ fs) i \<noteq> [])
          [length pre ..< length pre + length fs])"
proof (induction fs arbitrary: pre)
  case Nil
  show ?case by simp
next
  case (Cons g gs)
  have bx: "boxes_at e cp (pre @ g # gs) (length pre) = detectMultiScale e cp (cvtColor e g)"
    by (simp add: boxes_at_def)
  have up: "[length pre ..< length pre + length (g # gs)] =
            length pre # [length (pre @ [g]) ..< length (pre @ [g]) + length gs]"
    by (subst upt_conv_Cons) simp_all
  have ih: "detect_scan e cp fps (length (pre @ [g])) gs =
     map (\<lambda>i. \<lparr>dframe = i, dtimestamp = real i / fps,
                count = length (boxes_at e cp (pre @ g # gs) i),
                locations = boxes_at e cp (pre @ g # gs) i\<rparr>)
       (filter (\<lambda>i. boxes_at e cp (pre @ g # gs) i \<noteq> [])
          [length (pre @ [g]) ..< length (pre @ [g]) + length gs])"
    using Cons.IH [of "pre @ [g]"] by simp
  show ?case
    unfolding up using ih by (simp add: bx)
qed

text \<open>Each operation as a function of what the source holds.\<close>

lemma detect_camera_shake_run:
  "detect_camera_shake e vp op t fs =
     (let v = videos e vp; cap = VideoCapture e vp in
      if \<not> can_open v then \<lparr>ret = Inr [], cap_end = cap, fs_end = fs\<rparr>
      else case content v of
        [] \<Rightarrow> \<lparr>ret = Inr [], cap_end = cap, fs_end = fs\<rparr>
      | f # rest \<Rightarrow>
          let evs = shake_scan e t (frame_rate v) (cvtColor e f) 1 rest;
              cap2 = snd (shake_loop e t (frame_rate v) (cvtColor e f) 1 []
                            (cap\<lparr>pending := rest, reads := Suc (reads cap)\<rparr>))
          in if frame_rate v = 0 \<and> evs \<noteq> []
               then \<lparr>ret = Inl ZeroDivisionError, cap_end = cap2, fs_end = fs\<rparr>
             else if open_w e op
               then \<lparr>ret = Inr evs, cap_end = cap_release cap2,
                     fs_end = fs\<lparr>attempts := attempts fs @ [op],
                                 files := (files fs)(op \<mapsto> ShakeReport
                                   \<lparr>source_video = vp, shake_events = evs,
                                    total_events = length evs\<rparr>)\<rparr>\<rparr>
             else \<lparr>ret = Inl OSError, cap_end = cap_release cap2,
                   fs_end = fs\<lparr>attempts := attempts fs @ [op]\<rparr>\<rparr>)"
proof (cases "can_open (videos e vp)")
  case False
  then show ?thesis by (simp add: detect_camera_shake_def VideoCapture_def Let_def)
next
  case op: True
  show ?thesis
  proof (cases "content (videos e vp)")
    case Nil
    then show ?thesis
      using op by (simp add: detect_camera_shake_def VideoCapture_def Let_def cap_read_def)
  next
    case (Cons f rest)
    let ?cap = "VideoCapture e vp"
    let ?cap1 = "?cap\<lparr>pending := rest, reads := Suc (reads ?cap)\<rparr>"
    have rd: "cap_read ?cap = (Some f, ?cap1)"
      using op Cons by (simp add: cap_read_def VideoCapture_def Let_def)
    have o: "isOpened ?cap1" "pending ?cap1 = rest"
      using op by (simp_all add: VideoCapture_def Let_def)
    have fps: "CAP_PROP_FPS ?cap = frame_rate (videos e vp)"
      by (simp add: VideoCapture_def Let_def)
    obtain r c where lp: "shake_loop e t (frame_rate (videos e vp)) (cvtColor e f) (Suc 0) [] ?cap1 = (r, c)"
      by (cases "shake_loop e t (frame_rate (videos e vp)) (cvtColor e f) (Suc 0) [] ?cap1")
    have r: "r = (if frame_rate (videos e vp) = 0 \<and> shake_scan e t (frame_rate (videos e vp)) (cvtColor e f) (Suc 0) rest \<noteq> []
                  then Inl ZeroDivisionError
                  else Inr (shake_scan e t (frame_rate (videos e vp)) (cvtColor e f) (Suc 0) rest))"
      using shake_loop_ret [OF o, of e t "frame_rate (videos e vp)" "cvtColor e f" "Suc 0" "[]"] lp by auto
    have io: "isOpened ?cap" using op by (simp add: VideoCapture_def Let_def)
    show ?thesis
      unfolding detect_camera_shake_def Let_def fps
      using io op Cons lp r by (auto simp: rd write_json_def)
  qed
qed

lemma detect_faces_objects_run:
  "detect_faces_objects e vp op ct fs =
     (let v = videos e vp; cap = VideoCapture e vp in
      if \<not> can_open v then \<lparr>ret = Inr [], cap_end = cap, fs_end = fs\<rparr>
      else case cascade_path_for e ct of
        None \<Rightarrow> \<lparr>ret = Inr [], cap_end = cap, fs_end = fs\<rparr>
      | Some cp \<Rightarrow>
          let evs = detect_scan e cp (frame_rate v) 0 (content v);
              cap2 = snd (detect_loop e cp (frame_rate v) 0 [] cap)
          in if frame_rate v = 0 \<and> evs \<noteq> []
               then \<lparr>ret = Inl ZeroDivisionError, cap_end = cap2, fs_end = fs\<rparr>
             else if open_w e op
               then \<lparr>ret = Inr evs, cap_end = cap_release cap2,
                     fs_end = fs\<lparr>attempts := attempts fs @ [op],
                                 files := (files fs)(op \<mapsto> DetectionReport
                                   \<lparr>dsource_video = vp, detection_type = ct,
                                    detections = evs,
                                    total_frames_with_detections = length evs\<rparr>)\<rparr>\<rparr>
             else \<lparr>ret = Inl OSError, cap_end = cap_release cap2,
                   fs_end = fs\<lparr>attempts := attempts fs @ [op]\<rparr>\<rparr>)"
proof (cases "can_open (videos e vp)")
  case False
  then show ?thesis by (simp add: detect_faces_objects_def VideoCapture_def Let_def)
next
  case op: True
  show ?thesis
  proof (cases "cascade_path_for e ct")
    case None
    then show ?thesis
      using op by (simp add: detect_faces_objects_def VideoCapture_def Let_def)
  next
    case (Some cp)
    let ?cap = "VideoCapture e vp"
    have o: "isOpened ?cap" "pending ?cap = content (videos e vp)"
      using op by (simp_all add: VideoCapture_def Let_def)
    have fps: "CAP_PROP_FPS ?cap = frame_rate (videos e vp)"
      by (simp add: VideoCapture_def Let_def)
    obtain r c where lp: "detect_loop e cp (frame_rate (videos e vp)) 0 [] ?cap = (r, c)"
      by (cases "detect_loop e cp (frame_rate (videos e vp)) 0 [] ?cap")
    have r: "r = (if frame_rate (videos e vp) = 0 \<and> detect_scan e cp (frame_rate (videos e vp)) 0 (content (videos e vp)) \<noteq> []
                  then Inl ZeroDivisionError
                  else Inr (detect_scan e cp (frame_rate (videos e vp)) 0 (content (videos e vp))))"
      using detect_loop_ret [OF o, of e cp "frame_rate (videos e vp)" 0 "[]"] lp by auto
    show ?thesis
      unfolding detect_faces_objects_def Let_def fps
      using o(1) op Some lp r by (auto simp: write_json_def)
  qed
qed

text \<open>The returned value of each operation, in terms of the selections.\<close>

lemma shake_scan_selection:
  "shake_scan e t fps (cvtColor e f) (Suc 0) rest = shake_selection e t fps (f # rest)"
  using shake_scan_closed [of e t fps f "[]" rest] by (simp add: shake_selection_def)

lemma detect_scan_selection:
  "detect_scan e cp fps 0 fs = detection_selection e cp fps fs"
  using detect_scan_closed [of e cp fps "[]" fs] by (simp add: detection_selection_def)

lemma shake_selection_Nil [simp]: "shake_selection e t fps [] = []"
  by (simp add: shake_selection_def)

lemma detect_camera_shake_ret:
  "ret (detect_camera_shake e vp op t fs) =
     (if \<not> can_open (videos e vp) then Inr []
      else if frame_rate (videos e vp) = 0 \<and>
              shake_selection e t (frame_rate (videos e vp)) (content (videos e vp)) \<noteq> []
        then Inl ZeroDivisionError
      else if content (videos e vp) \<noteq> [] \<and> \<not> open_w e op then Inl OSError
      else Inr (shake_selection e t (frame_rate (videos e vp)) (content (videos e vp))))"
  by (auto simp: detect_camera_shake_run Let_def shake_scan_selection split: list.splits)

lemma detect_faces_objects_ret:
  "ret (detect_faces_objects e vp op ct fs) =
     (if \<not> can_open (videos e vp) then Inr []
      else case cascade_path_for e ct of
        None \<Rightarrow> Inr []
      | Some cp \<Rightarrow>
          if frame_rate (videos e vp) = 0 \<and>
             detection_selection e cp (frame_rate (videos e vp)) (content (videos e vp)) \<noteq> []
            then Inl ZeroDivisionError
          else if \<not> open_w e op then Inl OSError
          else Inr (detection_selection e cp (frame_rate (videos e vp)) (content (videos e vp))))"
  by (auto simp: detect_faces_objects_run Let_def detect_scan_selection split: option.splits)

lemma shake_selection_frames:
  "map frame (shake_selection e t fps fs) = filter (\<lambda>i. t < pair_magnitude e fs i) [1 ..< length fs]"
  by (simp add: shake_selection_def comp_def)

lemma shake_selection_set:
  "ev \<in> set (shake_selection e t fps fs) \<longleftrightarrow>
     (\<exists>i. 1 \<le> i \<and> i < length fs \<and> t < pair_magnitude e fs i \<and>
          ev = \<lparr>frame = i, timestamp = real i / fps, magnitude = pair_magnitude e fs i\<rparr>)"
  by (auto simp: shake_selection_def)

lemma detection_selection_set:
  "ev \<in> set (detection_selection e cp fps fs) \<longleftrightarrow>
     (\<exists>i. i < length fs \<and> boxes_at e cp fs i \<noteq> [] \<and>
          ev = \<lparr>dframe = i, dtimestamp = real i / fps,
                count = length (boxes_at e cp fs i), locations = boxes_at e cp fs i\<rparr>)"
  by (auto simp: detection_selection_def)

lemma detection_selection_length:
  "length (detection_selection e cp fps fs) = card {i. i < length fs \<and> boxes_at e cp fs i \<noteq> []}"
proof -
  have "length (detection_selection e cp fps fs) =
        length (filter (\<lambda>i. boxes_at e cp fs i \<noteq> []) [0 ..< length fs])"
    by (simp add: detection_selection_def)
  also have "\<dots> = card ({i. boxes_at e cp fs i \<noteq> []} \<inter> set [0 ..< length fs])"
    by (rule distinct_length_filter) simp
  also have "{i. boxes_at e cp fs i \<noteq> []} \<inter> set [0 ..< length fs] =
             {i. i < length fs \<and> boxes_at e cp fs i \<noteq> []}"
    by auto
  finally show ?thesis .
qed

lemma detection_selection_frames:
  "map dframe (detection_selection e cp fps fs) =
     filter (\<lambda>i. boxes_at e cp fs i \<noteq> []) [0 ..< length fs]"
  by (simp add: detection_selection_def comp_def)

lemma detect_faces_objects_file:
  assumes "can_open (videos e vp)" and "frame_rate (videos e vp) \<noteq> 0" and "open_w e op"
    and "cascade_path_for e ct = Some cp"
  shows "files (fs_end (detect_faces_objects e vp op ct fs)) op =
           Some (DetectionReport
             \<lparr>dsource_video = vp, detection_type = ct,
              detections = detection_selection e cp (frame_rate (videos e vp)) (content (videos e vp)),
              total_frames_with_detections =
                length (detection_selection e cp (frame_rate (videos e vp)) (content (videos e vp)))\<rparr>)"
  using assms by (simp add: detect_faces_objects_run Let_def detect_scan_selection)

text \<open>The concrete installation, evaluated.\<close>

lemma demo_clip [simp]:
  "videos demo_env ''clip.mp4'' = \<lparr>can_open = True, content = [0, 0, 3], frame_rate = 10\<rparr>"
  "videos demo_env ''copy.mp4'' = \<lparr>can_open = True, content = [0, 0, 3], frame_rate = 10\<rparr>"
  "videos demo_env ''none.mp4'' = \<lparr>can_open = True, content = [], frame_rate = 10\<rparr>"
  "videos demo_env ''zero.mp4'' = \<lparr>can_open = True, content = [0, 3], frame_rate = 0\<rparr>"
  "videos demo_env ''locked.mp4'' = \<lparr>can_open = False, content = [], frame_rate = 0\<rparr>"
  by (simp_all add: demo_env_def)

lemma demo_env_fields [simp]:
  "open_w demo_env p" "isfile demo_env p"
  "cvtColor demo_env f = f"
  "mean_flow demo_env a b = \<bar>real b - real a\<bar>"
  "detectMultiScale demo_env cp g = (if g = 3 then [[10, 10, 20, 20]] else [])"
  "haarcascades demo_env = ''/cv2/data/''"
  by (simp_all add: demo_env_def)

lemma demo_pair_magnitude [simp]:
  "pair_magnitude demo_env [0, 0, 3] 1 = 0"
  "pair_magnitude demo_env [0, 0, 3] (Suc 0) = 0"
  "pair_magnitude demo_env [0, 0, 3] 2 = 3"
  "pair_magnitude demo_env [0, 0, 3] (Suc (Suc 0)) = 3"
  "pair_magnitude demo_env [0, 3] 1 = 3"
  "pair_magnitude demo_env [0, 3] (Suc 0) = 3"
  by (simp_all add: pair_magnitude_def numeral_2_eq_2)

lemma demo_boxes [simp]:
  "boxes_at demo_env cp [0, 0, 3] 0 = []"
  "boxes_at demo_env cp [0, 0, 3] (Suc 0) = []"
  "boxes_at demo_env cp [0, 0, 3] (Suc (Suc 0)) = [[10, 10, 20, 20]]"
  "boxes_at demo_env cp [0, 0, 3] 2 = [[10, 10, 20, 20]]"
  "boxes_at demo_env cp [0, 3] 1 = [[10, 10, 20, 20]]"
  "boxes_at demo_env cp [0, 3] (Suc 0) = [[10, 10, 20, 20]]"
  by (simp_all add: boxes_at_def numeral_2_eq_2)

lemma demo_selection:
  "shake_selection demo_env (- 1) 10 [0, 0, 3] =
     [\<lparr>frame = 1, timestamp = 1 / 10, magnitude = 0\<rparr>, \<lparr>frame = 2, timestamp = 1 / 5, magnitude = 3\<rparr>]"
  "shake_selection demo_env (1 / 2) 10 [0, 0, 3] = [\<lparr>frame = 2, timestamp = 1 / 5, magnitude = 3\<rparr>]"
  "shake_selection demo_env 5 10 [0, 0, 3] = []"
  by (simp_all add: shake_selection_def pair_magnitude_def upt_rec)

lemma demo_detection:
  "detection_selection demo_env cp 10 [0, 0, 3] =
     [\<lparr>dframe = 2, dtimestamp = 1 / 5, count = 1, locations = [[10, 10, 20, 20]]\<rparr>]"
  by (simp add: detection_selection_def boxes_at_def upt_rec)

lemma demo_shake_ret:
  "ret (detect_camera_shake demo_env ''clip.mp4'' op (- 1) fs) =
     Inr [\<lparr>frame = 1, timestamp = 1 / 10, magnitude = 0\<rparr>, \<lparr>frame = 2, timestamp = 1 / 5, magnitude = 3\<rparr>]"
  "ret (detect_camera_shake demo_env ''clip.mp4'' op (1 / 2) fs) =
     Inr [\<lparr>frame = 2, timestamp = 1 / 5, magnitude = 3\<rparr>]"
  "ret (detect_camera_shake demo_env ''clip.mp4'' op 5 fs) = Inr []"
  by (simp_all add: detect_camera_shake_ret demo_selection)

lemma demo_cascade [simp]:
  "cascade_path_for demo_env ''face'' = Some ''/cv2/data/haarcascade_frontalface_default.xml''"
  by (simp add: cascade_path_for_def)

lemma demo_detect_ret:
  "ret (detect_faces_objects demo_env ''clip.mp4'' op ''face'' fs) =
     Inr [\<lparr>dframe = 2, dtimestamp = 1 / 5, count = 1, locations = [[10, 10, 20, 20]]\<rparr>]"
  by (simp add: detect_faces_objects_ret demo_detection)

lemma demo_attempts:
  "attempts (fs_end (detect_camera_shake demo_env ''clip.mp4'' ''out.json'' (1 / 2) demo_fs)) = [''out.json'']"
  "attempts (fs_end (detect_faces_objects demo_env ''clip.mp4'' ''out.json'' ''face'' demo_fs)) = [''out.json'']"
  by (simp_all add: detect_camera_shake_run detect_faces_objects_run Let_def demo_fs_def
        shake_scan_selection detect_scan_selection demo_selection demo_detection)

section \<open>The properties\<close>

subsection \<open>Unrecognised profile\<close>

text \<open>
  Claim C4. When \<^verbatim>\<open>detect_faces_objects\<close> is called with a profile that is neither
  \<^verbatim>\<open>'face'\<close> nor \<^verbatim>\<open>'object'\<close>, it returns the empty list, no frame has been read from
  the source (the read counter is still 0 and every frame is still pending), and the file
  system is unchanged: no report is written and no write is attempted.
\<close>

theorem unknown_profile_reads_nothing:
  assumes "cascade_type \<noteq> ''face''" and "cascade_type \<noteq> ''object''"
  shows "ret (detect_faces_objects e vp op cascade_type fs) = Inr [] \<and>
         reads (cap_end (detect_faces_objects e vp op cascade_type fs)) = 0 \<and>
         pending (cap_end (detect_faces_objects e vp op cascade_type fs)) = content (videos e vp) \<and>
         fs_end (detect_faces_objects e vp op cascade_type fs) = fs"
  using assms
  by (simp add: detect_faces_objects_def cascade_path_for_def VideoCapture_def Let_def)

theorem unknown_profile_reads_nothing_witness:
  "''car'' \<noteq> ''face'' \<and> ''car'' \<noteq> ''object'' \<and>
   ret (detect_faces_objects demo_env ''clip.mp4'' ''out.json'' ''car'' demo_fs) = Inr [] \<and>
   reads (cap_end (detect_faces_objects demo_env ''clip.mp4'' ''out.json'' ''car'' demo_fs)) = 0 \<and>
   pending (cap_end (detect_faces_objects demo_env ''clip.mp4'' ''out.json'' ''car'' demo_fs)) = [0, 0, 3] \<and>
   fs_end (detect_faces_objects demo_env ''clip.mp4'' ''out.json'' ''car'' demo_fs) = demo_fs"
proof -
  have a: "''car'' \<noteq> ''face''" and b: "''car'' \<noteq> ''object''" by simp_all
  show ?thesis
    using unknown_profile_reads_nothing [OF a b, of demo_env "''clip.mp4''" "''out.json''" demo_fs]
    by (simp add: demo_env_def)
qed

subsection \<open>Release of the frame source\<close>

text \<open>
  Claim C2. The claim asks that the opened source is released on every exit path. The
  code calls \<^verbatim>\<open>cap.release()\<close> only after the loop (lines 72 and 143). On the early
  return of \<^verbatim>\<open>detect_camera_shake\<close> for a source that opens and yields no frame
  (line 34), and on the early return of \<^verbatim>\<open>detect_faces_objects\<close> for an unknown profile
  (line 112), the source was opened and is returned unreleased. The theorem evaluates
  both operations at such inputs.
\<close>

theorem early_return_leaves_source_unreleased:
  "isOpened (VideoCapture demo_env ''none.mp4'') \<and>
   ret (detect_camera_shake demo_env ''none.mp4'' ''out.json'' (1 / 2) demo_fs) = Inr [] \<and>
   isOpened (cap_end (detect_camera_shake demo_env ''none.mp4'' ''out.json'' (1 / 2) demo_fs)) \<and>
   \<not> released (cap_end (detect_camera_shake demo_env ''none.mp4'' ''out.json'' (1 / 2) demo_fs)) \<and>
   isOpened (VideoCapture demo_env ''clip.mp4'') \<and>
   ret (detect_faces_objects demo_env ''clip.mp4'' ''out.json'' ''car'' demo_fs) = Inr [] \<and>
   isOpened (cap_end (detect_faces_objects demo_env ''clip.mp4'' ''out.json'' ''car'' demo_fs)) \<and>
   \<not> released (cap_end (detect_faces_objects demo_env ''clip.mp4'' ''out.json'' ''car'' demo_fs))"
  by (simp add: detect_camera_shake_run detect_faces_objects_run cascade_path_for_def
        VideoCapture_def Let_def demo_env_def)

subsection \<open>Shake events\<close>

text \<open>
  Claim C1. Let the source open, report a frame rate other than 0, and let the report path
  be writable. Then \<^verbatim>\<open>detect_camera_shake\<close> returns a list in which, for every frame pair
  (index \<open>i\<close> from 1 to N - 1, the pair of frames \<open>i - 1\<close> and \<open>i\<close>), an event with frame
  index \<open>i\<close> occurs if and only if the mean flow magnitude of the pair is strictly greater
  than the threshold; every event has timestamp equal to its frame index divided by the
  frame rate and magnitude equal to the mean of its pair; no frame index occurs twice; and
  with threshold 0 a pair of mean magnitude 0 has no event.
\<close>

theorem shake_event_iff_exceeds:
  assumes "can_open (videos e vp)" and "frame_rate (videos e vp) \<noteq> 0" and "open_w e op"
  shows "\<exists>evs. ret (detect_camera_shake e vp op t fs) = Inr evs \<and>
           (\<forall>i. 1 \<le> i \<and> i < length (content (videos e vp)) \<longrightarrow>
              ((\<exists>ev \<in> set evs. frame ev = i) \<longleftrightarrow> t < pair_magnitude e (content (videos e vp)) i)) \<and>
           (\<forall>ev \<in> set evs.
              1 \<le> frame ev \<and> frame ev < length (content (videos e vp)) \<and>
              timestamp ev = real (frame ev) / frame_rate (videos e vp) \<and>
              magnitude ev = pair_magnitude e (content (videos e vp)) (frame ev)) \<and>
           distinct (map frame evs) \<and>
           (\<forall>i. 1 \<le> i \<and> i < length (content (videos e vp)) \<and> t = 0 \<and>
                pair_magnitude e (content (videos e vp)) i = 0 \<longrightarrow>
                (\<forall>ev \<in> set evs. frame ev \<noteq> i))"
proof -
  let ?fs = "content (videos e vp)"
  let ?evs = "shake_selection e t (frame_rate (videos e vp)) ?fs"
  have r: "ret (detect_camera_shake e vp op t fs) = Inr ?evs"
    using assms by (simp add: detect_camera_shake_ret)
  have img: "frame ` set ?evs = {i. 1 \<le> i \<and> i < length ?fs \<and> t < pair_magnitude e ?fs i}"
  proof -
    have "frame ` set ?evs = set (map frame ?evs)" by simp
    also have "\<dots> = set (filter (\<lambda>i. t < pair_magnitude e ?fs i) [1 ..< length ?fs])"
      by (simp only: shake_selection_frames)
    also have "\<dots> = {i. 1 \<le> i \<and> i < length ?fs \<and> t < pair_magnitude e ?fs i}"
      by auto
    finally show ?thesis .
  qed
  have a: "\<forall>i. 1 \<le> i \<and> i < length ?fs \<longrightarrow>
              ((\<exists>ev \<in> set ?evs. frame ev = i) \<longleftrightarrow> t < pair_magnitude e ?fs i)"
  proof (intro allI impI)
    fix i assume i: "1 \<le> i \<and> i < length ?fs"
    have "(\<exists>ev \<in> set ?evs. frame ev = i) \<longleftrightarrow> i \<in> frame ` set ?evs"
      by (auto simp: image_iff)
    also have "\<dots> \<longleftrightarrow> t < pair_magnitude e ?fs i"
      unfolding img using i by simp
    finally show "(\<exists>ev \<in> set ?evs. frame ev = i) \<longleftrightarrow> t < pair_magnitude e ?fs i" .
  qed
  have b: "\<forall>ev \<in> set ?evs.
              1 \<le> frame ev \<and> frame ev < length ?fs \<and>
              timestamp ev = real (frame ev) / frame_rate (videos e vp) \<and>
              magnitude ev = pair_magnitude e ?fs (frame ev)"
    by (auto simp: shake_selection_set)
  have c: "distinct (map frame ?evs)"
    by (simp add: shake_selection_frames)
  have d: "\<forall>i. 1 \<le> i \<and> i < length ?fs \<and> t = 0 \<and> pair_magnitude e ?fs i = 0 \<longrightarrow>
                (\<forall>ev \<in> set ?evs. frame ev \<noteq> i)"
    by (auto simp: shake_selection_set)
  from r a b c d show ?thesis by blast
qed

theorem shake_event_iff_exceeds_witness:
  "can_open (videos demo_env ''clip.mp4'') \<and>
   frame_rate (videos demo_env ''clip.mp4'') \<noteq> 0 \<and>
   open_w demo_env ''out.json'' \<and>
   pair_magnitude demo_env (content (videos demo_env ''clip.mp4'')) 1 = 0 \<and>
   pair_magnitude demo_env (content (videos demo_env ''clip.mp4'')) 2 = 3 \<and>
   (\<exists>evs. ret (detect_camera_shake demo_env ''clip.mp4'' ''out.json'' 0 demo_fs) = Inr evs \<and>
      (\<exists>ev. ev \<in> set evs \<and> frame ev = 2 \<and> timestamp ev = 1 / 5 \<and> magnitude ev = 3) \<and>
      \<not> (\<exists>ev. ev \<in> set evs \<and> frame ev = 1))"
proof -
  let ?v = "videos demo_env ''clip.mp4''"
  have h1: "can_open ?v" and h2: "frame_rate ?v \<noteq> 0" and h3: "open_w demo_env ''out.json''"
    by simp_all
  have m1: "pair_magnitude demo_env (content ?v) 1 = 0"
    and m2: "pair_magnitude demo_env (content ?v) 2 = 3"
    by simp_all
  obtain evs where r: "ret (detect_camera_shake demo_env ''clip.mp4'' ''out.json'' 0 demo_fs) = Inr evs"
    and iff: "\<forall>i. 1 \<le> i \<and> i < length (content ?v) \<longrightarrow>
                ((\<exists>ev \<in> set evs. frame ev = i) \<longleftrightarrow> 0 < pair_magnitude demo_env (content ?v) i)"
    and fld: "\<forall>ev \<in> set evs. 1 \<le> frame ev \<and> frame ev < length (content ?v) \<and>
                timestamp ev = real (frame ev) / frame_rate ?v \<and>
                magnitude ev = pair_magnitude demo_env (content ?v) (frame ev)"
    using shake_event_iff_exceeds [OF h1 h2 h3, of 0 demo_fs] by blast
  have "(\<exists>ev \<in> set evs. frame ev = 2) \<longleftrightarrow> 0 < pair_magnitude demo_env (content ?v) 2"
    using iff by simp
  then obtain ev where ev: "ev \<in> set evs" "frame ev = 2"
    using m2 by auto
  have "timestamp ev = real (frame ev) / frame_rate ?v \<and>
        magnitude ev = pair_magnitude demo_env (content ?v) (frame ev)"
    using fld ev(1) by blast
  then have e2: "timestamp ev = 1 / 5 \<and> magnitude ev = 3"
    using ev(2) by simp
  have "(\<exists>ev \<in> set evs. frame ev = 1) \<longleftrightarrow> 0 < pair_magnitude demo_env (content ?v) 1"
    using iff by simp
  then have n1: "\<not> (\<exists>ev. ev \<in> set evs \<and> frame ev = 1)"
    using m1 by auto
  from h1 h2 h3 m1 m2 r ev e2 n1 show ?thesis by blast
qed

text \<open>
  Claim C6. Whenever \<^verbatim>\<open>detect_camera_shake\<close> returns a list, for a video of N frames
  the frame indices of the events are strictly increasing, form a subsequence of
  1, ..., N - 1 (so they follow source order), and none of them is 0.
\<close>

theorem shake_frames_increasing:
  assumes "ret (detect_camera_shake e vp op t fs) = Inr evs"
  shows "sorted_wrt (<) (map frame evs) \<and>
         subseq (map frame evs) [1 ..< length (content (videos e vp))] \<and>
         (\<forall>ev \<in> set evs. frame ev \<noteq> 0)"
proof -
  let ?fs = "content (videos e vp)"
  have "evs = [] \<or> evs = shake_selection e t (frame_rate (videos e vp)) ?fs"
    using assms by (auto simp: detect_camera_shake_ret split: if_splits)
  then show ?thesis
  proof
    assume "evs = []"
    then show ?thesis by simp
  next
    assume sel: "evs = shake_selection e t (frame_rate (videos e vp)) ?fs"
    have fr: "map frame evs = filter (\<lambda>i. t < pair_magnitude e ?fs i) [1 ..< length ?fs]"
      by (simp add: sel shake_selection_frames)
    have s: "sorted_wrt (<) (map frame evs)"
      unfolding fr by (rule sorted_wrt_filter) simp
    have q: "subseq (map frame evs) [1 ..< length ?fs]"
      unfolding fr by (rule subseq_filter_left)
    have z: "\<forall>ev \<in> set evs. frame ev \<noteq> 0"
      by (auto simp: sel shake_selection_set)
    from s q z show ?thesis by blast
  qed
qed

theorem shake_frames_increasing_witness:
  "ret (detect_camera_shake demo_env ''clip.mp4'' ''out.json'' (- 1) demo_fs) =
     Inr [\<lparr>frame = 1, timestamp = 1 / 10, magnitude = 0\<rparr>, \<lparr>frame = 2, timestamp = 1 / 5, magnitude = 3\<rparr>] \<and>
   sorted_wrt (<) (map frame
     [\<lparr>frame = 1, timestamp = 1 / 10, magnitude = 0\<rparr>, \<lparr>frame = 2, timestamp = 1 / 5, magnitude = 3\<rparr>]) \<and>
   subseq (map frame
     [\<lparr>frame = 1, timestamp = 1 / 10, magnitude = 0\<rparr>, \<lparr>frame = 2, timestamp = 1 / 5, magnitude = 3\<rparr>])
     [1 ..< length (content (videos demo_env ''clip.mp4''))]"
proof -
  have h: "ret (detect_camera_shake demo_env ''clip.mp4'' ''out.json'' (- 1) demo_fs) =
     Inr [\<lparr>frame = 1, timestamp = 1 / 10, magnitude = 0\<rparr>, \<lparr>frame = 2, timestamp = 1 / 5, magnitude = 3\<rparr>]"
    by (rule demo_shake_ret)
  show ?thesis
    using h shake_frames_increasing [OF h] by blast
qed

text \<open>
  Claim C7. On the same video, with thresholds \<open>t1 < t2\<close>, when both runs of
  \<^verbatim>\<open>detect_camera_shake\<close> return a list, every event returned for \<open>t2\<close> is among the
  events returned for \<open>t1\<close>.
\<close>

theorem threshold_monotone:
  assumes "t1 < t2"
    and "ret (detect_camera_shake e vp op t1 fs) = Inr evs1"
    and "ret (detect_camera_shake e vp op t2 fs) = Inr evs2"
  shows "set evs2 \<subseteq> set evs1"
proof (cases "can_open (videos e vp)")
  case False
  then show ?thesis using assms by (simp add: detect_camera_shake_ret)
next
  case True
  let ?fs = "content (videos e vp)"
  let ?fps = "frame_rate (videos e vp)"
  have e1: "evs1 = shake_selection e t1 ?fps ?fs"
    using assms(2) True by (auto simp: detect_camera_shake_ret split: if_splits)
  have e2: "evs2 = shake_selection e t2 ?fps ?fs"
    using assms(3) True by (auto simp: detect_camera_shake_ret split: if_splits)
  show ?thesis
    unfolding e1 e2 using assms(1) by (auto simp: shake_selection_set)
qed

theorem threshold_monotone_witness:
  "(- 1 :: real) < 1 / 2 \<and>
   ret (detect_camera_shake demo_env ''clip.mp4'' ''out.json'' (- 1) demo_fs) =
     Inr [\<lparr>frame = 1, timestamp = 1 / 10, magnitude = 0\<rparr>, \<lparr>frame = 2, timestamp = 1 / 5, magnitude = 3\<rparr>] \<and>
   ret (detect_camera_shake demo_env ''clip.mp4'' ''out.json'' (1 / 2) demo_fs) =
     Inr [\<lparr>frame = 2, timestamp = 1 / 5, magnitude = 3\<rparr>] \<and>
   set [\<lparr>frame = 2, timestamp = 1 / 5, magnitude = 3\<rparr>]
     \<subseteq> set [\<lparr>frame = 1, timestamp = 1 / 10, magnitude = 0\<rparr>, \<lparr>frame = 2, timestamp = 1 / 5, magnitude = 3\<rparr>]"
proof -
  have lt: "(- 1 :: real) < 1 / 2" by simp
  have h1: "ret (detect_camera_shake demo_env ''clip.mp4'' ''out.json'' (- 1) demo_fs) =
     Inr [\<lparr>frame = 1, timestamp = 1 / 10, magnitude = 0\<rparr>, \<lparr>frame = 2, timestamp = 1 / 5, magnitude = 3\<rparr>]"
    by (rule demo_shake_ret)
  have h2: "ret (detect_camera_shake demo_env ''clip.mp4'' ''out.json'' (1 / 2) demo_fs) =
     Inr [\<lparr>frame = 2, timestamp = 1 / 5, magnitude = 3\<rparr>]"
    by (rule demo_shake_ret)
  show ?thesis
    using lt h1 h2 threshold_monotone [OF lt h1 h2] by blast
qed

text \<open>
  Claim C8. The value \<^verbatim>\<open>detect_camera_shake\<close> returns depends only on the video (what the
  source holds), the threshold, the motion estimator and whether the report path can be
  written: two runs on the same video with the same threshold return the same result,
  whatever the paths used and whatever the file system held before, so in particular
  when the second run follows the first.
\<close>

theorem shake_events_deterministic:
  assumes "videos e vp1 = videos e vp2" and "open_w e op1 = open_w e op2"
  shows "ret (detect_camera_shake e vp1 op1 t fs1) = ret (detect_camera_shake e vp2 op2 t fs2)"
  using assms by (auto simp: detect_camera_shake_ret)

theorem shake_events_deterministic_witness:
  "videos demo_env ''clip.mp4'' = videos demo_env ''copy.mp4'' \<and>
   open_w demo_env ''first.json'' = open_w demo_env ''second.json'' \<and>
   ret (detect_camera_shake demo_env ''clip.mp4'' ''first.json'' (1 / 2) demo_fs) =
     ret (detect_camera_shake demo_env ''copy.mp4'' ''second.json'' (1 / 2)
            (fs_end (detect_camera_shake demo_env ''clip.mp4'' ''first.json'' (1 / 2) demo_fs))) \<and>
   ret (detect_camera_shake demo_env ''clip.mp4'' ''first.json'' (1 / 2) demo_fs) =
     Inr [\<lparr>frame = 2, timestamp = 1 / 5, magnitude = 3\<rparr>]"
proof -
  have v: "videos demo_env ''clip.mp4'' = videos demo_env ''copy.mp4''" by simp
  have w: "open_w demo_env ''first.json'' = open_w demo_env ''second.json''" by simp
  show ?thesis
    using v w
      shake_events_deterministic [OF v w, of "1 / 2" demo_fs
        "fs_end (detect_camera_shake demo_env ''clip.mp4'' ''first.json'' (1 / 2) demo_fs)"]
      demo_shake_ret(2) [of "''first.json''" demo_fs]
    by blast
qed

subsection \<open>The report\<close>

text \<open>
  Claim C9. Let the report path be writable. Whenever a run of \<^verbatim>\<open>detect_camera_shake\<close>
  or of \<^verbatim>\<open>detect_faces_objects\<close> reaches the report-writing step (it attempted a write),
  it returns a list, the report stored at the path holds exactly that list in its event
  field, and the count field of the report is the length of that list.
\<close>

theorem report_matches_returned_list:
  assumes "open_w e op"
  shows "(attempts (fs_end (detect_camera_shake e vp op t fs)) \<noteq> attempts fs \<longrightarrow>
            (\<exists>evs. ret (detect_camera_shake e vp op t fs) = Inr evs \<and>
               files (fs_end (detect_camera_shake e vp op t fs)) op =
                 Some (ShakeReport \<lparr>source_video = vp, shake_events = evs,
                                     total_events = length evs\<rparr>))) \<and>
         (attempts (fs_end (detect_faces_objects e vp op ct fs)) \<noteq> attempts fs \<longrightarrow>
            (\<exists>evs. ret (detect_faces_objects e vp op ct fs) = Inr evs \<and>
               files (fs_end (detect_faces_objects e vp op ct fs)) op =
                 Some (DetectionReport \<lparr>dsource_video = vp, detection_type = ct,
                                         detections = evs,
                                         total_frames_with_detections = length evs\<rparr>)))"
  using assms
  by (auto simp: detect_camera_shake_run detect_faces_objects_run Let_def
           split: list.splits option.splits)

theorem report_matches_returned_list_witness:
  "open_w demo_env ''out.json'' \<and>
   attempts (fs_end (detect_camera_shake demo_env ''clip.mp4'' ''out.json'' (1 / 2) demo_fs)) \<noteq> attempts demo_fs \<and>
   ret (detect_camera_shake demo_env ''clip.mp4'' ''out.json'' (1 / 2) demo_fs) =
     Inr [\<lparr>frame = 2, timestamp = 1 / 5, magnitude = 3\<rparr>] \<and>
   files (fs_end (detect_camera_shake demo_env ''clip.mp4'' ''out.json'' (1 / 2) demo_fs)) ''out.json'' =
     Some (ShakeReport \<lparr>source_video = ''clip.mp4'',
                         shake_events = [\<lparr>frame = 2, timestamp = 1 / 5, magnitude = 3\<rparr>],
                         total_events = 1\<rparr>) \<and>
   attempts (fs_end (detect_faces_objects demo_env ''clip.mp4'' ''out.json'' ''face'' demo_fs)) \<noteq> attempts demo_fs \<and>
   ret (detect_faces_objects demo_env ''clip.mp4'' ''out.json'' ''face'' demo_fs) =
     Inr [\<lparr>dframe = 2, dtimestamp = 1 / 5, count = 1, locations = [[10, 10, 20, 20]]\<rparr>] \<and>
   files (fs_end (detect_faces_objects demo_env ''clip.mp4'' ''out.json'' ''face'' demo_fs)) ''out.json'' =
     Some (DetectionReport \<lparr>dsource_video = ''clip.mp4'', detection_type = ''face'',
             detections = [\<lparr>dframe = 2, dtimestamp = 1 / 5, count = 1, locations = [[10, 10, 20, 20]]\<rparr>],
             total_frames_with_detections = 1\<rparr>)"
proof -
  have w: "open_w demo_env ''out.json''" by simp
  have a1: "attempts (fs_end (detect_camera_shake demo_env ''clip.mp4'' ''out.json'' (1 / 2) demo_fs)) \<noteq> attempts demo_fs"
    unfolding demo_attempts by (simp add: demo_fs_def)
  have a2: "attempts (fs_end (detect_faces_objects demo_env ''clip.mp4'' ''out.json'' ''face'' demo_fs)) \<noteq> attempts demo_fs"
    unfolding demo_attempts by (simp add: demo_fs_def)
  have r1: "ret (detect_camera_shake demo_env ''clip.mp4'' ''out.json'' (1 / 2) demo_fs) =
     Inr [\<lparr>frame = 2, timestamp = 1 / 5, magnitude = 3\<rparr>]"
    by (rule demo_shake_ret)
  have r2: "ret (detect_faces_objects demo_env ''clip.mp4'' ''out.json'' ''face'' demo_fs) =
     Inr [\<lparr>dframe = 2, dtimestamp = 1 / 5, count = 1, locations = [[10, 10, 20, 20]]\<rparr>]"
    by (rule demo_detect_ret)
  note th = report_matches_returned_list [OF w, of "''clip.mp4''" "1 / 2" demo_fs "''face''"]
  have f1: "files (fs_end (detect_camera_shake demo_env ''clip.mp4'' ''out.json'' (1 / 2) demo_fs)) ''out.json'' =
     Some (ShakeReport \<lparr>source_video = ''clip.mp4'',
                         shake_events = [\<lparr>frame = 2, timestamp = 1 / 5, magnitude = 3\<rparr>],
                         total_events = 1\<rparr>)"
    using th a1 r1 by auto
  have f2: "files (fs_end (detect_faces_objects demo_env ''clip.mp4'' ''out.json'' ''face'' demo_fs)) ''out.json'' =
     Some (DetectionReport \<lparr>dsource_video = ''clip.mp4'', detection_type = ''face'',
             detections = [\<lparr>dframe = 2, dtimestamp = 1 / 5, count = 1, locations = [[10, 10, 20, 20]]\<rparr>],
             total_frames_with_detections = 1\<rparr>)"
    using th a2 r2 by auto
  from w a1 r1 f1 a2 r2 f2 show ?thesis by blast
qed

subsection \<open>Detection events\<close>

text \<open>
  Claim C5. Let the source open, report a frame rate other than 0, let the report path be
  writable and the profile be recognised. Then \<^verbatim>\<open>detect_faces_objects\<close> returns a list in
  which an event for frame \<open>i\<close> (from 0 to N - 1) occurs if and only if the classifier
  returned at least one box for that frame; the count of every event is the number of
  boxes of its frame (at least 1) and its locations are those boxes in the classifier's
  order; no frame has two events; and the written report holds that list, with
  \<open>total_frames_with_detections\<close> equal to the number of frames with at least one box.
\<close>

theorem detection_event_iff_boxes:
  assumes "can_open (videos e vp)" and "frame_rate (videos e vp) \<noteq> 0" and "open_w e op"
    and "cascade_path_for e ct = Some cp"
  shows "\<exists>evs. ret (detect_faces_objects e vp op ct fs) = Inr evs \<and>
           (\<forall>i. i < length (content (videos e vp)) \<longrightarrow>
              ((\<exists>ev \<in> set evs. dframe ev = i) \<longleftrightarrow> boxes_at e cp (content (videos e vp)) i \<noteq> [])) \<and>
           (\<forall>ev \<in> set evs.
              dframe ev < length (content (videos e vp)) \<and>
              count ev = length (boxes_at e cp (content (videos e vp)) (dframe ev)) \<and>
              1 \<le> count ev \<and>
              locations ev = boxes_at e cp (content (videos e vp)) (dframe ev)) \<and>
           distinct (map dframe evs) \<and>
           (\<exists>rep. files (fs_end (detect_faces_objects e vp op ct fs)) op = Some (DetectionReport rep) \<and>
              detections rep = evs \<and>
              total_frames_with_detections rep =
                card {i. i < length (content (videos e vp)) \<and>
                         boxes_at e cp (content (videos e vp)) i \<noteq> []})"
proof -
  let ?fs = "content (videos e vp)"
  let ?evs = "detection_selection e cp (frame_rate (videos e vp)) ?fs"
  have r: "ret (detect_faces_objects e vp op ct fs) = Inr ?evs"
    using assms by (simp add: detect_faces_objects_ret)
  have img: "dframe ` set ?evs = {i. i < length ?fs \<and> boxes_at e cp ?fs i \<noteq> []}"
  proof -
    have "dframe ` set ?evs = set (map dframe ?evs)" by simp
    also have "\<dots> = set (filter (\<lambda>i. boxes_at e cp ?fs i \<noteq> []) [0 ..< length ?fs])"
      by (simp only: detection_selection_frames)
    also have "\<dots> = {i. i < length ?fs \<and> boxes_at e cp ?fs i \<noteq> []}"
      by auto
    finally show ?thesis .
  qed
  have a: "\<forall>i. i < length ?fs \<longrightarrow>
              ((\<exists>ev \<in> set ?evs. dframe ev = i) \<longleftrightarrow> boxes_at e cp ?fs i \<noteq> [])"
  proof (intro allI impI)
    fix i assume i: "i < length ?fs"
    have "(\<exists>ev \<in> set ?evs. dframe ev = i) \<longleftrightarrow> i \<in> dframe ` set ?evs"
      by (auto simp: image_iff)
    also have "\<dots> \<longleftrightarrow> boxes_at e cp ?fs i \<noteq> []"
      unfolding img using i by simp
    finally show "(\<exists>ev \<in> set ?evs. dframe ev = i) \<longleftrightarrow> boxes_at e cp ?fs i \<noteq> []" .
  qed
  have b: "\<forall>ev \<in> set ?evs.
              dframe ev < length ?fs \<and>
              count ev = length (boxes_at e cp ?fs (dframe ev)) \<and>
              1 \<le> count ev \<and>
              locations ev = boxes_at e cp ?fs (dframe ev)"
    by (auto simp: detection_selection_set Suc_le_eq)
  have c: "distinct (map dframe ?evs)"
    by (simp add: detection_selection_frames)
  have d: "\<exists>rep. files (fs_end (detect_faces_objects e vp op ct fs)) op = Some (DetectionReport rep) \<and>
              detections rep = ?evs \<and>
              total_frames_with_detections rep =
                card {i. i < length ?fs \<and> boxes_at e cp ?fs i \<noteq> []}"
    using detect_faces_objects_file [OF assms, of fs]
    by (simp add: detection_selection_length)
  from r a b c d show ?thesis by blast
qed

theorem detection_event_iff_boxes_witness:
  "can_open (videos demo_env ''clip.mp4'') \<and>
   frame_rate (videos demo_env ''clip.mp4'') \<noteq> 0 \<and>
   open_w demo_env ''out.json'' \<and>
   cascade_path_for demo_env ''face'' = Some ''/cv2/data/haarcascade_frontalface_default.xml'' \<and>
   boxes_at demo_env ''/cv2/data/haarcascade_frontalface_default.xml''
     (content (videos demo_env ''clip.mp4'')) 0 = [] \<and>
   boxes_at demo_env ''/cv2/data/haarcascade_frontalface_default.xml''
     (content (videos demo_env ''clip.mp4'')) 2 = [[10, 10, 20, 20]] \<and>
   (\<exists>evs. ret (detect_faces_objects demo_env ''clip.mp4'' ''out.json'' ''face'' demo_fs) = Inr evs \<and>
      (\<exists>ev. ev \<in> set evs \<and> dframe ev = 2 \<and> count ev = 1 \<and> locations ev = [[10, 10, 20, 20]]) \<and>
      \<not> (\<exists>ev. ev \<in> set evs \<and> dframe ev = 0) \<and>
      (\<exists>rep. files (fs_end (detect_faces_objects demo_env ''clip.mp4'' ''out.json'' ''face'' demo_fs))
                ''out.json'' = Some (DetectionReport rep) \<and>
             detections rep = evs \<and> total_frames_with_detections rep = 1))"
proof -
  let ?v = "videos demo_env ''clip.mp4''"
  let ?cp = "''/cv2/data/haarcascade_frontalface_default.xml''"
  have h1: "can_open ?v" and h2: "frame_rate ?v \<noteq> 0" and h3: "open_w demo_env ''out.json''"
    and h4: "cascade_path_for demo_env ''face'' = Some ?cp"
    by simp_all
  have b0: "boxes_at demo_env ?cp (content ?v) 0 = []"
    and b2: "boxes_at demo_env ?cp (content ?v) 2 = [[10, 10, 20, 20]]"
    by simp_all
  have cd: "card {i. i < length (content ?v) \<and> boxes_at demo_env ?cp (content ?v) i \<noteq> []} = 1"
  proof -
    have "{i. i < length (content ?v) \<and> boxes_at demo_env ?cp (content ?v) i \<noteq> []} = {2}"
      by (auto simp: less_Suc_eq)
    then show ?thesis by simp
  qed
  obtain evs rep
    where r: "ret (detect_faces_objects demo_env ''clip.mp4'' ''out.json'' ''face'' demo_fs) = Inr evs"
    and iff: "\<forall>i. i < length (content ?v) \<longrightarrow>
                ((\<exists>ev \<in> set evs. dframe ev = i) \<longleftrightarrow> boxes_at demo_env ?cp (content ?v) i \<noteq> [])"
    and fld: "\<forall>ev \<in> set evs. dframe ev < length (content ?v) \<and>
                count ev = length (boxes_at demo_env ?cp (content ?v) (dframe ev)) \<and>
                1 \<le> count ev \<and>
                locations ev = boxes_at demo_env ?cp (content ?v) (dframe ev)"
    and rep: "files (fs_end (detect_faces_objects demo_env ''clip.mp4'' ''out.json'' ''face'' demo_fs))
                ''out.json'' = Some (DetectionReport rep)"
             "detections rep = evs"
             "total_frames_with_detections rep =
                card {i. i < length (content ?v) \<and> boxes_at demo_env ?cp (content ?v) i \<noteq> []}"
    using detection_event_iff_boxes [OF h1 h2 h3 h4, of demo_fs] by blast
  have "(\<exists>ev \<in> set evs. dframe ev = 2) \<longleftrightarrow> boxes_at demo_env ?cp (content ?v) 2 \<noteq> []"
    using iff by simp
  then obtain ev where ev: "ev \<in> set evs" "dframe ev = 2"
    using b2 by auto
  have "count ev = length (boxes_at demo_env ?cp (content ?v) (dframe ev)) \<and>
        locations ev = boxes_at demo_env ?cp (content ?v) (dframe ev)"
    using fld ev(1) by blast
  then have e2: "count ev = 1 \<and> locations ev = [[10, 10, 20, 20]]"
    using ev(2) by simp
  have "(\<exists>ev \<in> set evs. dframe ev = 0) \<longleftrightarrow> boxes_at demo_env ?cp (content ?v) 0 \<noteq> []"
    using iff by simp
  then have n0: "\<not> (\<exists>ev. ev \<in> set evs \<and> dframe ev = 0)"
    using b0 by auto
  have tot: "total_frames_with_detections rep = 1"
    using rep(3) cd by simp
  from h1 h2 h3 h4 b0 b2 r ev e2 n0 rep(1,2) tot show ?thesis by blast
qed

subsection \<open>Division by the frame rate\<close>

text \<open>
  Claim C10. The division \<^verbatim>\<open>frame_count / fps\<close> is unguarded. When the source reports a
  positive frame rate, neither operation fails with a division by zero. When the source
  opens and reports a frame rate of 0, a frame pair whose mean magnitude exceeds the
  threshold makes \<^verbatim>\<open>detect_camera_shake\<close> fail with \<open>ZeroDivisionError\<close>, and a frame
  with at least one box makes \<^verbatim>\<open>detect_faces_objects\<close> (with a recognised profile) fail
  with \<open>ZeroDivisionError\<close>, instead of returning a list.
\<close>

theorem timestamp_division_unguarded:
  "(0 < frame_rate (videos e vp) \<longrightarrow>
      ret (detect_camera_shake e vp op t fs) \<noteq> Inl ZeroDivisionError \<and>
      ret (detect_faces_objects e vp op ct fs) \<noteq> Inl ZeroDivisionError) \<and>
   (can_open (videos e0 vp0) \<and> frame_rate (videos e0 vp0) = 0 \<and>
    1 \<le> i \<and> i < length (content (videos e0 vp0)) \<and>
    t0 < pair_magnitude e0 (content (videos e0 vp0)) i \<longrightarrow>
      ret (detect_camera_shake e0 vp0 op0 t0 fs0) = Inl ZeroDivisionError) \<and>
   (can_open (videos e0 vp0) \<and> frame_rate (videos e0 vp0) = 0 \<and>
    cascade_path_for e0 ct0 = Some cp \<and>
    j < length (content (videos e0 vp0)) \<and>
    boxes_at e0 cp (content (videos e0 vp0)) j \<noteq> [] \<longrightarrow>
      ret (detect_faces_objects e0 vp0 op0 ct0 fs0) = Inl ZeroDivisionError)"
proof (intro conjI impI)
  assume "0 < frame_rate (videos e vp)"
  then show "ret (detect_camera_shake e vp op t fs) \<noteq> Inl ZeroDivisionError"
    by (auto simp: detect_camera_shake_ret)
next
  assume "0 < frame_rate (videos e vp)"
  then show "ret (detect_faces_objects e vp op ct fs) \<noteq> Inl ZeroDivisionError"
    by (auto simp: detect_faces_objects_ret split: option.splits)
next
  assume h: "can_open (videos e0 vp0) \<and> frame_rate (videos e0 vp0) = 0 \<and>
    1 \<le> i \<and> i < length (content (videos e0 vp0)) \<and>
    t0 < pair_magnitude e0 (content (videos e0 vp0)) i"
  let ?ev = "\<lparr>frame = i, timestamp = real i / 0, magnitude = pair_magnitude e0 (content (videos e0 vp0)) i\<rparr>"
  have "?ev \<in> set (shake_selection e0 t0 0 (content (videos e0 vp0)))"
    unfolding shake_selection_set using h by blast
  then have "shake_selection e0 t0 0 (content (videos e0 vp0)) \<noteq> []" by auto
  then show "ret (detect_camera_shake e0 vp0 op0 t0 fs0) = Inl ZeroDivisionError"
    using h by (simp add: detect_camera_shake_ret)
next
  assume h: "can_open (videos e0 vp0) \<and> frame_rate (videos e0 vp0) = 0 \<and>
    cascade_path_for e0 ct0 = Some cp \<and>
    j < length (content (videos e0 vp0)) \<and>
    boxes_at e0 cp (content (videos e0 vp0)) j \<noteq> []"
  let ?ev = "\<lparr>dframe = j, dtimestamp = real j / 0,
              count = length (boxes_at e0 cp (content (videos e0 vp0)) j),
              locations = boxes_at e0 cp (content (videos e0 vp0)) j\<rparr>"
  have "?ev \<in> set (detection_selection e0 cp 0 (content (videos e0 vp0)))"
    unfolding detection_selection_set using h by blast
  then have "detection_selection e0 cp 0 (content (videos e0 vp0)) \<noteq> []" by auto
  then show "ret (detect_faces_objects e0 vp0 op0 ct0 fs0) = Inl ZeroDivisionError"
    using h by (simp add: detect_faces_objects_ret)
qed

theorem timestamp_division_unguarded_witness:
  "0 < frame_rate (videos demo_env ''clip.mp4'') \<and>
   ret (detect_camera_shake demo_env ''clip.mp4'' ''out.json'' (1 / 2) demo_fs) \<noteq> Inl ZeroDivisionError \<and>
   ret (detect_faces_objects demo_env ''clip.mp4'' ''out.json'' ''face'' demo_fs) \<noteq> Inl ZeroDivisionError \<and>
   can_open (videos demo_env ''zero.mp4'') \<and>
   frame_rate (videos demo_env ''zero.mp4'') = 0 \<and>
   (1 :: nat) < length (content (videos demo_env ''zero.mp4'')) \<and>
   1 / 2 < pair_magnitude demo_env (content (videos demo_env ''zero.mp4'')) 1 \<and>
   cascade_path_for demo_env ''face'' = Some ''/cv2/data/haarcascade_frontalface_default.xml'' \<and>
   boxes_at demo_env ''/cv2/data/haarcascade_frontalface_default.xml''
     (content (videos demo_env ''zero.mp4'')) 1 \<noteq> [] \<and>
   ret (detect_camera_shake demo_env ''zero.mp4'' ''out.json'' (1 / 2) demo_fs) = Inl ZeroDivisionError \<and>
   ret (detect_faces_objects demo_env ''zero.mp4'' ''out.json'' ''face'' demo_fs) = Inl ZeroDivisionError"
proof -
  let ?cp = "''/cv2/data/haarcascade_frontalface_default.xml''"
  have p: "0 < frame_rate (videos demo_env ''clip.mp4'')" by simp
  have z: "can_open (videos demo_env ''zero.mp4'')" "frame_rate (videos demo_env ''zero.mp4'') = 0"
    "(1 :: nat) \<le> 1" "(1 :: nat) < length (content (videos demo_env ''zero.mp4''))"
    "1 / 2 < pair_magnitude demo_env (content (videos demo_env ''zero.mp4'')) 1"
    by simp_all
  have c: "cascade_path_for demo_env ''face'' = Some ?cp"
    "boxes_at demo_env ?cp (content (videos demo_env ''zero.mp4'')) 1 \<noteq> []"
    by simp_all
  note th = timestamp_division_unguarded
    [of demo_env "''clip.mp4''" "''out.json''" "1 / 2" demo_fs "''face''"
        demo_env "''zero.mp4''" 1 "1 / 2" "''out.json''" demo_fs "''face''" ?cp 1]
  show ?thesis
    using th p z c by blast
qed

subsection \<open>When a report is attempted\<close>

text \<open>
  Claim C3 as stated fails. In each of these runs the input file exists and the run ends
  normally, yet no write is attempted and the file system is left as it was: \<^verbatim>\<open>main\<close> in
  shake mode on a file whose source does not open (return at line 25), \<^verbatim>\<open>main\<close> in shake
  mode on a source that opens and yields no frame (return at line 34), and
  \<^verbatim>\<open>detect_faces_objects\<close> with an unknown profile (return at line 112).
\<close>

theorem no_report_attempted_on_early_return:
  "isfile demo_env ''locked.mp4'' \<and>
   main demo_env \<lparr>video = ''locked.mp4'', mode = ''shake'', output_path_arg = Some ''out.json'',
                   threshold = 1 / 2\<rparr> demo_fs = (Inr (), demo_fs) \<and>
   isfile demo_env ''none.mp4'' \<and>
   main demo_env \<lparr>video = ''none.mp4'', mode = ''shake'', output_path_arg = Some ''out.json'',
                   threshold = 1 / 2\<rparr> demo_fs = (Inr (), demo_fs) \<and>
   isfile demo_env ''clip.mp4'' \<and>
   fs_end (detect_faces_objects demo_env ''clip.mp4'' ''out.json'' ''car'' demo_fs) = demo_fs \<and>
   attempts demo_fs = []"
  by (simp add: main_def output_path_of_def Let_def detect_camera_shake_run
        detect_faces_objects_run cascade_path_for_def demo_fs_def)

text \<open>
  Claim C3, as amended. For every run of \<^verbatim>\<open>main\<close> with a valid mode whose input file
  exists, whose source opens and, in shake mode, yields at least one frame, and which
  does not fail with a division by zero, exactly one report write is attempted, at the
  report path, also when zero events were found.
\<close>

theorem report_attempted_when_source_usable:
  assumes "mode a \<in> {''shake'', ''face'', ''object''}"
    and "isfile e (video a)"
    and "can_open (videos e (video a))"
    and "mode a = ''shake'' \<longrightarrow> content (videos e (video a)) \<noteq> []"
    and "fst (main e a fs) \<noteq> Inl ZeroDivisionError"
  shows "attempts (snd (main e a fs)) = attempts fs @ [output_path_of e a]"
proof -
  consider (s) "mode a = ''shake''" | (f) "mode a = ''face''" | (o) "mode a = ''object''"
    using assms(1) by auto
  then show ?thesis
  proof cases
    case s
    have nz: "ret (detect_camera_shake e (video a) (output_path_of e a) (threshold a) fs) \<noteq> Inl ZeroDivisionError"
      using assms(2,5) s by (auto simp: main_def Let_def map_sum_def split: sum.splits)
    have "attempts (fs_end (detect_camera_shake e (video a) (output_path_of e a) (threshold a) fs)) =
            attempts fs @ [output_path_of e a]"
      using nz assms(3,4) s
      by (auto simp: detect_camera_shake_run Let_def split: list.splits if_splits)
    then show ?thesis using assms(2) s by (simp add: main_def Let_def)
  next
    case f
    have cp: "cascade_path_for e ''face'' = Some (haarcascades e @ ''haarcascade_frontalface_default.xml'')"
      by (simp add: cascade_path_for_def)
    have nz: "ret (detect_faces_objects e (video a) (output_path_of e a) ''face'' fs) \<noteq> Inl ZeroDivisionError"
      using assms(2,5) f by (auto simp: main_def Let_def map_sum_def split: sum.splits)
    have "attempts (fs_end (detect_faces_objects e (video a) (output_path_of e a) ''face'' fs)) =
            attempts fs @ [output_path_of e a]"
      using nz assms(3)
      by (auto simp: detect_faces_objects_run cp Let_def split: if_splits)
    then show ?thesis using assms(2) f by (simp add: main_def Let_def)
  next
    case o
    have cp: "cascade_path_for e ''object'' = Some (haarcascades e @ ''haarcascade_fullbody.xml'')"
      by (simp add: cascade_path_for_def)
    have nz: "ret (detect_faces_objects e (video a) (output_path_of e a) ''object'' fs) \<noteq> Inl ZeroDivisionError"
      using assms(2,5) o by (auto simp: main_def Let_def map_sum_def split: sum.splits)
    have "attempts (fs_end (detect_faces_objects e (video a) (output_path_of e a) ''object'' fs)) =
            attempts fs @ [output_path_of e a]"
      using nz assms(3)
      by (auto simp: detect_faces_objects_run cp Let_def split: if_splits)
    then show ?thesis using assms(2) o by (simp add: main_def Let_def)
  qed
qed

theorem report_attempted_when_source_usable_witness:
  "mode \<lparr>video = ''clip.mp4'', mode = ''shake'', output_path_arg = Some ''out.json'', threshold = 5\<rparr>
     \<in> {''shake'', ''face'', ''object''} \<and>
   isfile demo_env ''clip.mp4'' \<and>
   can_open (videos demo_env ''clip.mp4'') \<and>
   content (videos demo_env ''clip.mp4'') \<noteq> [] \<and>
   main demo_env \<lparr>video = ''clip.mp4'', mode = ''shake'', output_path_arg = Some ''out.json'',
                   threshold = 5\<rparr> demo_fs
     = (Inr (), \<lparr>attempts = [''out.json''],
                  files = [''out.json'' \<mapsto> ShakeReport \<lparr>source_video = ''clip.mp4'', shake_events = [],
                                                           total_events = 0\<rparr>]\<rparr>) \<and>
   attempts (snd (main demo_env \<lparr>video = ''clip.mp4'', mode = ''shake'',
                                  output_path_arg = Some ''out.json'', threshold = 5\<rparr> demo_fs))
     = attempts demo_fs @ [''out.json'']"
proof -
  let ?a = "\<lparr>video = ''clip.mp4'', mode = ''shake'', output_path_arg = Some ''out.json'', threshold = 5\<rparr>"
  have m: "main demo_env ?a demo_fs
     = (Inr (), \<lparr>attempts = [''out.json''],
                  files = [''out.json'' \<mapsto> ShakeReport \<lparr>source_video = ''clip.mp4'', shake_events = [],
                                                           total_events = 0\<rparr>]\<rparr>)"
    by (simp add: main_def output_path_of_def Let_def detect_camera_shake_run
          shake_scan_selection demo_selection demo_fs_def)
  have h1: "mode ?a \<in> {''shake'', ''face'', ''object''}" by simp
  have h2: "isfile demo_env (video ?a)" by simp
  have h3: "can_open (videos demo_env (video ?a))" by simp
  have h4: "mode ?a = ''shake'' \<longrightarrow> content (videos demo_env (video ?a)) \<noteq> []" by simp
  have h5: "fst (main demo_env ?a demo_fs) \<noteq> Inl ZeroDivisionError" by (simp add: m)
  have o: "output_path_of demo_env ?a = ''out.json''" by (simp add: output_path_of_def)
  have "attempts (snd (main demo_env ?a demo_fs)) = attempts demo_fs @ [output_path_of demo_env ?a]"
    by (rule report_attempted_when_source_usable [OF h1 h2 h3 h4 h5])
  then have att: "attempts (snd (main demo_env ?a demo_fs)) = attempts demo_fs @ [''out.json'']"
    by (simp only: o)
  have c: "content (videos demo_env ''clip.mp4'') \<noteq> []" by simp
  have i: "isfile demo_env ''clip.mp4''" and k: "can_open (videos demo_env ''clip.mp4'')" by simp_all
  from h1 i k c m att show ?thesis by blast
qed

end
